theory Spec2Isabelle
  imports Main "HOL-Library.Word"
begin

section \<open>Strings as the handlers use them\<close>

text \<open>
  The handlers work on JavaScript strings, sequences of UTF-16 code units. They are
  modelled as \<open>string\<close>, one \<open>char\<close> for one code unit, which covers the code units
  below 256 (ASCII and the Latin-1 supplement); a string with a higher code unit has no
  counterpart in the model. On that range \<open>toLowerCase\<close> maps \<open>A\<close>..\<open>Z\<close> and the
  letters U+00C0..U+00DE (without the multiplication sign U+00D7) to the code unit 32
  higher and leaves every other character alone, and the white space removed by
  \<open>trim\<close> and matched by \<open>\s\<close> is tab, line feed, vertical tab, form feed, carriage
  return, space and the no-break space U+00A0.
\<close>

definition upperCaseLetters :: string where
  "upperCaseLetters = ''ABCDEFGHIJKLMNOPQRSTUVWXYZ'' @
       [CHR 0xC0, CHR 0xC1, CHR 0xC2, CHR 0xC3, CHR 0xC4, CHR 0xC5, CHR 0xC6, CHR 0xC7,
        CHR 0xC8, CHR 0xC9, CHR 0xCA, CHR 0xCB, CHR 0xCC, CHR 0xCD, CHR 0xCE, CHR 0xCF,
        CHR 0xD0, CHR 0xD1, CHR 0xD2, CHR 0xD3, CHR 0xD4, CHR 0xD5, CHR 0xD6, CHR 0xD8,
        CHR 0xD9, CHR 0xDA, CHR 0xDB, CHR 0xDC, CHR 0xDD, CHR 0xDE]"

definition lowerCaseLetters :: string where
  "lowerCaseLetters = ''abcdefghijklmnopqrstuvwxyz'' @
       [CHR 0xE0, CHR 0xE1, CHR 0xE2, CHR 0xE3, CHR 0xE4, CHR 0xE5, CHR 0xE6, CHR 0xE7,
        CHR 0xE8, CHR 0xE9, CHR 0xEA, CHR 0xEB, CHR 0xEC, CHR 0xED, CHR 0xEE, CHR 0xEF,
        CHR 0xF0, CHR 0xF1, CHR 0xF2, CHR 0xF3, CHR 0xF4, CHR 0xF5, CHR 0xF6, CHR 0xF8,
        CHR 0xF9, CHR 0xFA, CHR 0xFB, CHR 0xFC, CHR 0xFD, CHR 0xFE]"

definition toLowerCase_char :: "char \<Rightarrow> char" where
  "toLowerCase_char c =
     (case map_of (zip upperCaseLetters lowerCaseLetters) c of
        Some l \<Rightarrow> l
      | None \<Rightarrow> c)"

definition toLowerCase :: "string \<Rightarrow> string" where
  "toLowerCase s = map toLowerCase_char s"

definition isWhiteSpace :: "char \<Rightarrow> bool" where
  "isWhiteSpace c =
     (c \<in> set [CHR 0x09, CHR 0x0A, CHR 0x0B, CHR 0x0C, CHR 0x0D, CHR '' '', CHR 0xA0])"

definition trim :: "string \<Rightarrow> string" where
  "trim s = rev (dropWhile isWhiteSpace (rev (dropWhile isWhiteSpace s)))"

text \<open>
  \<open>s.split(c)\<close> for a one-character separator: the pieces between the separators, in
  order. The result is never empty (\<open>"".split(":")\<close> is \<open>[""]\<close>).
\<close>

fun split :: "char \<Rightarrow> string \<Rightarrow> string list" where
  "split c [] = [[]]"
| "split c (x # xs) =
     (if x = c then [] # split c xs
      else (case split c xs of
              [] \<Rightarrow> [[x]]
            | p # ps \<Rightarrow> (x # p) # ps))"

section \<open>Tenant resolver: \<open>extractSubdomain\<close> (middleware.ts, lib/auth-server.ts)\<close>

text \<open>
  \<open>parts[0]\<close> and \<open>split(':')[0]\<close> read the first element of a list that \<open>split\<close>
  never returns empty (lemma \<open>split_not_Nil\<close> below), so \<open>hd\<close> is the element the
  source reads. The two files hold the same function body; \<open>extractSubdomain\<close> is the copy
  of middleware.ts and \<open>extractSubdomain_server\<close> the copy of lib/auth-server.ts.
\<close>

definition extractSubdomain :: "string \<Rightarrow> string option" where
  "extractSubdomain hostname =
     (let hostWithoutPort = hd (split CHR '':'' hostname) in
      if hostWithoutPort = ''localhost'' \<or> hostWithoutPort = ''127.0.0.1'' then None
      else
        (let parts = split CHR ''.'' hostWithoutPort in
         if length parts \<ge> 3 then Some (hd parts) else None))"

definition extractSubdomain_server :: "string \<Rightarrow> string option" where
  "extractSubdomain_server hostname =
     (let hostWithoutPort = hd (split CHR '':'' hostname) in
      if hostWithoutPort = ''localhost'' \<or> hostWithoutPort = ''127.0.0.1'' then None
      else
        (let parts = split CHR ''.'' hostWithoutPort in
         if length parts \<ge> 3 then Some (hd parts) else None))"


section \<open>Data model (Prisma schema as described in TASK_1_SETUP.md)\<close>

text \<open>
  Identifiers, e-mail addresses and tokens are strings; a \<open>Date\<close> is its number of
  milliseconds since the epoch, which is what \<open><\<close> compares in JavaScript. The tables are
  lists of rows. The generated \<open>id\<close>, \<open>createdAt\<close> and \<open>updatedAt\<close> columns of a session
  are never read or written by the code and are left out; the session table is used
  through its unique \<open>token\<close> column only.
\<close>

record tenant =
  t_id :: string
  t_subdomain :: string
  t_name :: string
  t_createdAt :: int
  t_updatedAt :: int

record user =
  u_id :: string
  u_email :: string
  u_password :: string
  u_name :: "string option"
  u_tenantId :: string

record session =
  s_userId :: string
  s_tenantId :: string
  s_token :: string
  s_expiresAt :: int

record cookie =
  c_value :: string
  c_httpOnly :: bool
  c_secure :: bool
  c_sameSite :: string
  c_maxAge :: int
  c_path :: string

text \<open>
  The state that the handlers read and write: the three tables, the cookie jar of the
  caller (\<open>cookies()\<close>), and whether the storage engine answers at all. A Prisma call on
  a store that is not \<open>online\<close> throws; that is the failure the \<open>catch\<close> blocks of
  lib/tenant.ts and lib/session.ts turn into \<open>null\<close>.
\<close>

record state =
  online :: bool
  tenants :: "tenant list"
  users :: "user list"
  sessions :: "session list"
  cookies :: "string \<rightharpoonup> cookie"

text \<open>
  What a call takes from its environment: the clock (\<open>new Date()\<close>), the bytes returned
  by \<open>crypto.randomBytes(32)\<close>, the identifier the database generates for a new user
  row, and whether \<open>NODE_ENV\<close> is \<open>production\<close>.
\<close>

record env =
  e_now :: int
  e_randomBytes :: "8 word list"
  e_uuid :: string
  e_production :: bool

datatype prisma_error = StorageFailure | RecordNotFound | UniqueConstraintViolation

section \<open>Prisma client operations used by the code\<close>

definition prisma_tenant_findUnique :: "state \<Rightarrow> string \<Rightarrow> prisma_error + tenant option" where
  \<comment> \<open>\<open>prisma.tenant.findUnique({ where: { subdomain } })\<close>\<close>
  "prisma_tenant_findUnique st sub =
     (if online st then Inr (find (\<lambda>t. t_subdomain t = sub) (tenants st))
      else Inl StorageFailure)"

definition prisma_session_findUnique :: "state \<Rightarrow> string \<Rightarrow> prisma_error + session option" where
  \<comment> \<open>\<open>prisma.session.findUnique({ where: { token } })\<close>\<close>
  "prisma_session_findUnique st token =
     (if online st then Inr (find (\<lambda>s. s_token s = token) (sessions st))
      else Inl StorageFailure)"

definition prisma_session_create :: "state \<Rightarrow> session \<Rightarrow> (prisma_error + session) \<times> state" where
  \<comment> \<open>\<open>prisma.session.create({ data })\<close>; \<open>token\<close> is a unique column\<close>
  "prisma_session_create st row =
     (if \<not> online st then (Inl StorageFailure, st)
      else if find (\<lambda>s. s_token s = s_token row) (sessions st) \<noteq> None
        then (Inl UniqueConstraintViolation, st)
      else (Inr row, st\<lparr>sessions := sessions st @ [row]\<rparr>))"

definition prisma_session_delete :: "state \<Rightarrow> string \<Rightarrow> (prisma_error + session) \<times> state" where
  \<comment> \<open>\<open>prisma.session.delete({ where: { token } })\<close>; throws when no row matches\<close>
  "prisma_session_delete st token =
     (if \<not> online st then (Inl StorageFailure, st)
      else (case find (\<lambda>s. s_token s = token) (sessions st) of
              None \<Rightarrow> (Inl RecordNotFound, st)
            | Some row \<Rightarrow>
                (Inr row, st\<lparr>sessions := filter (\<lambda>s. s_token s \<noteq> token) (sessions st)\<rparr>)))"

definition prisma_user_findUnique :: "state \<Rightarrow> string \<Rightarrow> prisma_error + user option" where
  \<comment> \<open>\<open>prisma.user.findUnique({ where: { id } })\<close>\<close>
  "prisma_user_findUnique st userId =
     (if online st then Inr (find (\<lambda>u. u_id u = userId) (users st))
      else Inl StorageFailure)"

definition prisma_user_findUnique_email_tenantId ::
  "state \<Rightarrow> string \<Rightarrow> string \<Rightarrow> prisma_error + user option" where
  \<comment> \<open>\<open>prisma.user.findUnique({ where: { email_tenantId: { email, tenantId } } })\<close>\<close>
  "prisma_user_findUnique_email_tenantId st email tenantId =
     (if online st
        then Inr (find (\<lambda>u. u_email u = email \<and> u_tenantId u = tenantId) (users st))
      else Inl StorageFailure)"

definition prisma_user_create :: "state \<Rightarrow> user \<Rightarrow> (prisma_error + user) \<times> state" where
  \<comment> \<open>\<open>prisma.user.create\<close> with \<open>tenant: { connect: { id } }\<close>: the tenant must exist,
      \<open>id\<close> is the primary key and \<open>(email, tenantId)\<close> is unique\<close>
  "prisma_user_create st row =
     (if \<not> online st then (Inl StorageFailure, st)
      else if find (\<lambda>t. t_id t = u_tenantId row) (tenants st) = None
        then (Inl RecordNotFound, st)
      else if find (\<lambda>u. u_id u = u_id row \<or>
                         (u_email u = u_email row \<and> u_tenantId u = u_tenantId row)) (users st)
              \<noteq> None
        then (Inl UniqueConstraintViolation, st)
      else (Inr row, st\<lparr>users := users st @ [row]\<rparr>))"

section \<open>Tenant directory: lib/tenant.ts\<close>

definition getTenantBySubdomain :: "state \<Rightarrow> string \<Rightarrow> prisma_error + tenant option" where
  "getTenantBySubdomain st subdomain =
     (case prisma_tenant_findUnique st (trim (toLowerCase subdomain)) of
        Inr tenant \<Rightarrow> Inr tenant
      | Inl error \<Rightarrow> Inr None)"

section \<open>Tenant context: lib/tenant-context.ts\<close>

record json_body =
  b_email :: "string option"
  b_password :: "string option"
  b_name :: "string option"

text \<open>
  A request carries its headers and its body; \<open>r_body = None\<close> is a body that
  \<open>request.json()\<close> rejects. A field of the body is \<open>None\<close> when it is absent or
  \<open>null\<close>; fields are strings otherwise.
\<close>

record request =
  r_headers :: "string \<rightharpoonup> string"
  r_body :: "json_body option"

definition getTenantFromRequest :: "state \<Rightarrow> request \<Rightarrow> prisma_error + tenant option" where
  "getTenantFromRequest st request =
     (case r_headers request ''x-tenant-subdomain'' of
        None \<Rightarrow> Inr None
      | Some subdomain \<Rightarrow>
          if subdomain = [] then Inr None else getTenantBySubdomain st subdomain)"

section \<open>Tenant-scoped data access: \<open>dbUser\<close> of lib/db.ts\<close>

record user_input =
  i_email :: string
  i_password :: string
  i_name :: "string option"

definition dbUser_findByEmail :: "state \<Rightarrow> string \<Rightarrow> string \<Rightarrow> prisma_error + user option" where
  "dbUser_findByEmail st tenantId email = prisma_user_findUnique_email_tenantId st email tenantId"

definition dbUser_create ::
  "env \<Rightarrow> state \<Rightarrow> string \<Rightarrow> user_input \<Rightarrow> (prisma_error + user) \<times> state" where
  "dbUser_create ev st tenantId data =
     prisma_user_create st
       \<lparr>u_id = e_uuid ev, u_email = i_email data, u_password = i_password data,
        u_name = i_name data, u_tenantId = tenantId\<rparr>"

section \<open>Session store: lib/session.ts\<close>

definition SESSION_COOKIE_NAME :: string where
  "SESSION_COOKIE_NAME = ''session_token''"

definition SESSION_EXPIRATION_DAYS :: int where
  "SESSION_EXPIRATION_DAYS = 30"

definition hexDigit :: "nat \<Rightarrow> char" where
  "hexDigit n = ''0123456789abcdef'' ! (n mod 16)"

definition hexByte :: "8 word \<Rightarrow> string" where
  "hexByte b = [hexDigit (unat b div 16), hexDigit (unat b mod 16)]"

definition generateSessionToken :: "env \<Rightarrow> string" where
  \<comment> \<open>\<open>crypto.randomBytes(32).toString('hex')\<close>\<close>
  "generateSessionToken ev = concat (map hexByte (e_randomBytes ev))"

text \<open>
  \<open>expiresAt.setDate(expiresAt.getDate() + 30)\<close> moves the date thirty calendar days
  ahead; the model takes a day as 86400000 milliseconds (no change of the local
  time offset in between).
\<close>

definition createSession ::
  "env \<Rightarrow> state \<Rightarrow> string \<Rightarrow> string \<Rightarrow> (prisma_error + string) \<times> state" where
  "createSession ev st userId tenantId =
     (let token = generateSessionToken ev;
          expiresAt = e_now ev + SESSION_EXPIRATION_DAYS * 86400000
      in case prisma_session_create st
                \<lparr>s_userId = userId, s_tenantId = tenantId, s_token = token,
                 s_expiresAt = expiresAt\<rparr> of
           (Inl error, st') \<Rightarrow> (Inl error, st')
         | (Inr row, st') \<Rightarrow>
             (Inr token,
              st'\<lparr>cookies := (cookies st')(SESSION_COOKIE_NAME \<mapsto>
                     \<lparr>c_value = token, c_httpOnly = True, c_secure = e_production ev,
                      c_sameSite = ''lax'',
                      c_maxAge = SESSION_EXPIRATION_DAYS * 24 * 60 * 60,
                      c_path = ''/''\<rparr>)\<rparr>))"

definition deleteSession :: "state \<Rightarrow> string \<Rightarrow> (prisma_error + unit) \<times> state" where
  "deleteSession st token =
     (case prisma_session_delete st token of
        (Inr row, st') \<Rightarrow> (Inr (), st')
      | (Inl error, st') \<Rightarrow> (Inr (), st'))"

record session_data =
  sd_userId :: string
  sd_tenantId :: string
  sd_token :: string

text \<open>
  The optional argument \<open>tenantId?: string\<close> is a \<open>string option\<close>; \<open>tenantId &&\<close> holds
  for a present, non-empty string. Everything is inside one \<open>try\<close> whose \<open>catch\<close> returns
  \<open>null\<close>.
\<close>

definition getSession ::
  "env \<Rightarrow> state \<Rightarrow> string option \<Rightarrow> (prisma_error + session_data option) \<times> state" where
  "getSession ev st tenantId =
     (case cookies st SESSION_COOKIE_NAME of
        None \<Rightarrow> (Inr None, st)
      | Some c \<Rightarrow>
          (let token = c_value c in
           if token = [] then (Inr None, st)
           else
             (case prisma_session_findUnique st token of
                Inl error \<Rightarrow> (Inr None, st)
              | Inr None \<Rightarrow> (Inr None, st)
              | Inr (Some session) \<Rightarrow>
                  if s_expiresAt session < e_now ev then
                    (case deleteSession st token of
                       (Inr u, st') \<Rightarrow> (Inr None, st')
                     | (Inl error, st') \<Rightarrow> (Inr None, st'))
                  else if (case tenantId of
                             None \<Rightarrow> False
                           | Some t \<Rightarrow> t \<noteq> [] \<and> s_tenantId session \<noteq> t)
                    then (Inr None, st)
                  else
                    (Inr (Some \<lparr>sd_userId = s_userId session,
                                 sd_tenantId = s_tenantId session,
                                 sd_token = s_token session\<rparr>), st))))"

record session_user =
  su_id :: string
  su_email :: string
  su_name :: "string option"
  su_tenantId :: string

definition getSessionUser ::
  "env \<Rightarrow> state \<Rightarrow> string \<Rightarrow> (prisma_error + session_user option) \<times> state" where
  "getSessionUser ev st tenantId =
     (case getSession ev st (Some tenantId) of
        (Inl error, st') \<Rightarrow> (Inl error, st')
      | (Inr None, st') \<Rightarrow> (Inr None, st')
      | (Inr (Some session), st') \<Rightarrow>
          (case prisma_user_findUnique st' (sd_userId session) of
             Inl error \<Rightarrow> (Inl error, st')
           | Inr None \<Rightarrow> (Inr None, st')
           | Inr (Some user) \<Rightarrow>
               if u_tenantId user \<noteq> tenantId then (Inr None, st')
               else
                 (Inr (Some \<lparr>su_id = u_id user, su_email = u_email user,
                              su_name = u_name user, su_tenantId = u_tenantId user\<rparr>), st')))"

section \<open>Authentication gate: lib/auth.ts\<close>

definition getAuthenticatedUser ::
  "env \<Rightarrow> state \<Rightarrow> request \<Rightarrow> (prisma_error + session_user option) \<times> state" where
  "getAuthenticatedUser ev st request =
     (case getTenantFromRequest st request of
        Inl error \<Rightarrow> (Inl error, st)
      | Inr None \<Rightarrow> (Inr None, st)
      | Inr (Some tenant) \<Rightarrow> getSessionUser ev st (t_id tenant))"

section \<open>Login and signup route handlers\<close>

record public_user =
  pu_id :: string
  pu_email :: string
  pu_name :: "string option"

datatype response_json =
    ErrorJson string
  | LoginJson public_user
  | SignupJson string public_user

record response =
  status :: nat
  json :: response_json

definition internal_server_error :: response where
  "internal_server_error = \<lparr>status = 500, json = ErrorJson ''Internal server error''\<rparr>"

text \<open>
  \<open>/^[^\s@]+@[^\s@]+\.[^\s@]+$/\<close>: the whole string is a non-empty run of characters
  that are neither white space nor \<open>@\<close>, then \<open>@\<close>, then such a run, a dot, and such a
  run again. \<open>i\<close> is the position of the \<open>@\<close> and \<open>j\<close> the position of the dot that the
  match uses.
\<close>

definition plainChar :: "char \<Rightarrow> bool" where
  "plainChar c = (\<not> isWhiteSpace c \<and> c \<noteq> CHR ''@'')"

definition emailRegex_test :: "string \<Rightarrow> bool" where
  "emailRegex_test s =
     list_ex (\<lambda>i. list_ex (\<lambda>j.
         i < j \<and> s ! i = CHR ''@'' \<and> s ! j = CHR ''.'' \<and>
         0 < i \<and> list_all plainChar (take i s) \<and>
         Suc i < j \<and> list_all plainChar (take (j - Suc i) (drop (Suc i) s)) \<and>
         Suc j < length s \<and> list_all plainChar (drop (Suc j) s))
       [0..<length s]) [0..<length s]"

text \<open>
  The login handler (app/api/auth/login/route.ts). \<open>comparePassword\<close> of lib/password.ts
  (bcrypt) is a parameter. The whole body is inside \<open>try\<close>; the \<open>catch\<close> answers 500.
\<close>

definition login_POST ::
  "(string \<Rightarrow> string \<Rightarrow> bool) \<Rightarrow> env \<Rightarrow> state \<Rightarrow> request \<Rightarrow> (prisma_error + response) \<times> state" where
  "login_POST comparePassword ev st request =
     (case getTenantFromRequest st request of
        Inl error \<Rightarrow> (Inr internal_server_error, st)
      | Inr None \<Rightarrow> (Inr \<lparr>status = 404, json = ErrorJson ''Tenant not found''\<rparr>, st)
      | Inr (Some tenant) \<Rightarrow>
          (case r_body request of
             None \<Rightarrow> (Inr internal_server_error, st)
           | Some body \<Rightarrow>
               (case (b_email body, b_password body) of
                  (Some email, Some password) \<Rightarrow>
                    if email = [] \<or> password = [] then
                      (Inr \<lparr>status = 400, json = ErrorJson ''Email and password are required''\<rparr>, st)
                    else
                      (case dbUser_findByEmail st (t_id tenant) email of
                         Inl error \<Rightarrow> (Inr internal_server_error, st)
                       | Inr None \<Rightarrow>
                           (Inr \<lparr>status = 401, json = ErrorJson ''Invalid email or password''\<rparr>, st)
                       | Inr (Some user) \<Rightarrow>
                           if \<not> comparePassword password (u_password user) then
                             (Inr \<lparr>status = 401, json = ErrorJson ''Invalid email or password''\<rparr>, st)
                           else
                             (case createSession ev st (u_id user) (t_id tenant) of
                                (Inl error, st') \<Rightarrow> (Inr internal_server_error, st')
                              | (Inr token, st') \<Rightarrow>
                                  (Inr \<lparr>status = 200,
                                        json = LoginJson \<lparr>pu_id = u_id user, pu_email = u_email user,
                                                          pu_name = u_name user\<rparr>\<rparr>, st')))
                | _ \<Rightarrow>
                    (Inr \<lparr>status = 400, json = ErrorJson ''Email and password are required''\<rparr>, st))))"

text \<open>
  The signup handler (app/api/auth/signup/route.ts). \<open>hashPassword\<close> of lib/password.ts
  is a parameter. \<open>name?.trim() || null\<close> is \<open>null\<close> for an absent name and for one that
  trims to the empty string.
\<close>

definition signup_POST ::
  "(string \<Rightarrow> string) \<Rightarrow> env \<Rightarrow> state \<Rightarrow> request \<Rightarrow> (prisma_error + response) \<times> state" where
  "signup_POST hashPassword ev st request =
     (case getTenantFromRequest st request of
        Inl error \<Rightarrow> (Inr internal_server_error, st)
      | Inr None \<Rightarrow> (Inr \<lparr>status = 404, json = ErrorJson ''Tenant not found''\<rparr>, st)
      | Inr (Some tenant) \<Rightarrow>
          (case r_body request of
             None \<Rightarrow> (Inr internal_server_error, st)
           | Some body \<Rightarrow>
               (case (b_email body, b_password body) of
                  (Some email, Some password) \<Rightarrow>
                    if email = [] \<or> password = [] then
                      (Inr \<lparr>status = 400, json = ErrorJson ''Email and password are required''\<rparr>, st)
                    else if \<not> emailRegex_test email then
                      (Inr \<lparr>status = 400, json = ErrorJson ''Invalid email format''\<rparr>, st)
                    else if length password < 6 then
                      (Inr \<lparr>status = 400,
                            json = ErrorJson ''Password must be at least 6 characters long''\<rparr>, st)
                    else
                      (case dbUser_findByEmail st (t_id tenant) email of
                         Inl error \<Rightarrow> (Inr internal_server_error, st)
                       | Inr (Some existingUser) \<Rightarrow>
                           (Inr \<lparr>status = 409,
                                 json = ErrorJson ''User with this email already exists''\<rparr>, st)
                       | Inr None \<Rightarrow>
                           (case dbUser_create ev st (t_id tenant)
                                   \<lparr>i_email = trim (toLowerCase email),
                                    i_password = hashPassword password,
                                    i_name = (case b_name body of
                                                None \<Rightarrow> None
                                              | Some n \<Rightarrow> if trim n = [] then None else Some (trim n))\<rparr> of
                              (Inl error, st1) \<Rightarrow> (Inr internal_server_error, st1)
                            | (Inr user, st1) \<Rightarrow>
                                (case createSession ev st1 (u_id user) (t_id tenant) of
                                   (Inl error, st2) \<Rightarrow> (Inr internal_server_error, st2)
                                 | (Inr token, st2) \<Rightarrow>
                                     (Inr \<lparr>status = 201,
                                           json = SignupJson ''User created successfully''
                                                    \<lparr>pu_id = u_id user, pu_email = u_email user,
                                                     pu_name = u_name user\<rparr>\<rparr>, st2))))
                | _ \<Rightarrow>
                    (Inr \<lparr>status = 400, json = ErrorJson ''Email and password are required''\<rparr>, st))))"

section \<open>A small deployment used to instantiate the theorems\<close>

definition acme :: tenant where
  "acme = \<lparr>t_id = ''t-acme'', t_subdomain = ''acme'', t_name = ''Acme'',
           t_createdAt = 0, t_updatedAt = 0\<rparr>"

definition other :: tenant where
  "other = \<lparr>t_id = ''t-other'', t_subdomain = ''other'', t_name = ''Other'',
            t_createdAt = 0, t_updatedAt = 0\<rparr>"

definition alice :: user where
  "alice = \<lparr>u_id = ''u-1'', u_email = ''a@x.com'', u_password = ''digest-1'',
            u_name = Some ''Alice'', u_tenantId = ''t-acme''\<rparr>"

definition alice_session :: session where
  "alice_session = \<lparr>s_userId = ''u-1'', s_tenantId = ''t-acme'', s_token = ''tok-1'',
                    s_expiresAt = 1000\<rparr>"

definition token_cookie :: "string \<Rightarrow> cookie" where
  "token_cookie v = \<lparr>c_value = v, c_httpOnly = True, c_secure = False, c_sameSite = ''lax'',
                     c_maxAge = 2592000, c_path = ''/''\<rparr>"

definition deployment :: state where
  "deployment = \<lparr>online = True, tenants = [acme, other], users = [alice],
                 sessions = [alice_session],
                 cookies = [''session_token'' \<mapsto> token_cookie ''tok-1'']\<rparr>"

definition clock :: "int \<Rightarrow> env" where
  "clock n = \<lparr>e_now = n, e_randomBytes = replicate 32 0xAB, e_uuid = ''u-2'',
              e_production = False\<rparr>"

definition request_for :: "string \<Rightarrow> json_body option \<Rightarrow> request" where
  "request_for sub b = \<lparr>r_headers = [''x-tenant-subdomain'' \<mapsto> sub], r_body = b\<rparr>"

definition verify_digest :: "string \<Rightarrow> string \<Rightarrow> bool" where
  "verify_digest p d = (d = ''digest-'' @ p)"

definition make_digest :: "string \<Rightarrow> string" where
  "make_digest p = ''digest-'' @ p"

section \<open>Properties of the string helpers\<close>

lemma split_not_Nil: "split c s \<noteq> []"
  by (induction s) (auto split: list.splits)

lemma hd_split: "hd (split c s) = takeWhile (\<lambda>x. x \<noteq> c) s"
proof (induction s)
  case Nil
  show ?case by simp
next
  case (Cons x xs)
  then show ?case
    using split_not_Nil [of c xs] by (cases "split c xs") auto
qed

lemma length_split: "length (split c s) = Suc (length (filter (\<lambda>x. x = c) s))"
proof (induction s)
  case Nil
  show ?case by simp
next
  case (Cons x xs)
  then show ?case
    using split_not_Nil [of c xs] by (cases "split c xs") auto
qed

section \<open>Auxiliary facts about the operations\<close>

lemma find_app:
  "find P (xs @ ys) = (case find P xs of None \<Rightarrow> find P ys | Some x \<Rightarrow> Some x)"
  by (induction xs) simp_all

lemma length_generateSessionToken:
  "length (generateSessionToken ev) = 2 * length (e_randomBytes ev)"
  unfolding generateSessionToken_def
  by (induction "e_randomBytes ev" arbitrary: ev) (simp_all add: hexByte_def length_concat comp_def sum_list_triv)

lemma users_getSession: "users (snd (getSession ev st tenantId)) = users st"
  by (simp add: getSession_def Let_def deleteSession_def prisma_session_delete_def
      split: option.splits sum.splits prod.splits)

lemma getSessionUser_Some:
  assumes "fst (getSessionUser ev st tenantId) = Inr (Some u)"
  shows "\<exists>session st' user. getSession ev st (Some tenantId) = (Inr (Some session), st') \<and>
           prisma_user_findUnique st' (sd_userId session) = Inr (Some user) \<and>
           u_tenantId user = tenantId \<and>
           u = \<lparr>su_id = u_id user, su_email = u_email user, su_name = u_name user,
                su_tenantId = u_tenantId user\<rparr>"
  using assms
  by (auto simp: getSessionUser_def split: prod.splits sum.splits option.splits if_splits)

lemma prisma_user_findUnique_Some:
  "prisma_user_findUnique st userId = Inr (Some user) \<Longrightarrow>
     user \<in> set (users st) \<and> u_id user = userId"
  by (auto simp: prisma_user_findUnique_def find_Some_iff split: if_splits)

lemma getSessionUser_returns:
  "fst (getSessionUser ev st T) = Inr None \<or>
   (\<exists>u. fst (getSessionUser ev st T) = Inr (Some u) \<and> su_tenantId u = T)"
  by (auto simp: getSessionUser_def getSession_def Let_def prisma_session_findUnique_def
      prisma_user_findUnique_def deleteSession_def prisma_session_delete_def
      split: option.splits sum.splits prod.splits if_splits)

lemma getAuthenticatedUser_returns:
  "fst (getAuthenticatedUser ev st request) = Inr None \<or>
   (\<exists>u tenant. fst (getAuthenticatedUser ev st request) = Inr (Some u) \<and>
       getTenantFromRequest st request = Inr (Some tenant) \<and> su_tenantId u = t_id tenant)"
  using getSessionUser_returns
  by (auto simp: getAuthenticatedUser_def getTenantFromRequest_def getTenantBySubdomain_def
      split: option.splits sum.splits)

lemma emailRegex_test_Nil: "\<not> emailRegex_test []"
  by (simp add: emailRegex_test_def)

lemma signup_checked:
  assumes "getTenantFromRequest st request = Inr (Some tenant)"
    and "r_body request = Some body" "b_email body = Some email"
      "b_password body = Some password"
    and "emailRegex_test email" "6 \<le> length password"
  shows "signup_POST hashPassword ev st request =
     (case dbUser_findByEmail st (t_id tenant) email of
        Inl error \<Rightarrow> (Inr internal_server_error, st)
      | Inr (Some existingUser) \<Rightarrow>
          (Inr \<lparr>status = 409, json = ErrorJson ''User with this email already exists''\<rparr>, st)
      | Inr None \<Rightarrow>
          (case dbUser_create ev st (t_id tenant)
                  \<lparr>i_email = trim (toLowerCase email),
                   i_password = hashPassword password,
                   i_name = (case b_name body of
                               None \<Rightarrow> None
                             | Some n \<Rightarrow> if trim n = [] then None else Some (trim n))\<rparr> of
             (Inl error, st1) \<Rightarrow> (Inr internal_server_error, st1)
           | (Inr user, st1) \<Rightarrow>
               (case createSession ev st1 (u_id user) (t_id tenant) of
                  (Inl error, st2) \<Rightarrow> (Inr internal_server_error, st2)
                | (Inr token, st2) \<Rightarrow>
                    (Inr \<lparr>status = 201,
                          json = SignupJson ''User created successfully''
                                   \<lparr>pu_id = u_id user, pu_email = u_email user,
                                    pu_name = u_name user\<rparr>\<rparr>, st2))))"
proof -
  from assms(5) have "email \<noteq> []" using emailRegex_test_Nil by auto
  moreover from assms(6) have "password \<noteq> []" by auto
  ultimately show ?thesis
    using assms by (simp add: signup_POST_def)
qed

lemma normal_acme: "trim (toLowerCase ''acme'') = ''acme''"
  by (simp add: trim_def toLowerCase_def toLowerCase_char_def upperCaseLetters_def lowerCaseLetters_def isWhiteSpace_def)

lemma tenant_acme: "getTenantFromRequest deployment (request_for ''acme'' b) = Inr (Some acme)"
  by (simp add: getTenantFromRequest_def request_for_def getTenantBySubdomain_def
      prisma_tenant_findUnique_def normal_acme deployment_def acme_def other_def)

section \<open>Tenant resolver\<close>

text \<open>
  C4, as the spec states it, has \<open>extractSubdomain("tenantA.example.com:3000")\<close> return
  the lower-cased label. The function returns the label as it is written in the host.
\<close>

theorem extractSubdomain_case_counterexample:
  "extractSubdomain ''tenantA.example.com:3000'' \<noteq> Some ''tenanta''"
  by (simp add: extractSubdomain_def)

text \<open>
  C4 (amended): \<open>extractSubdomain("tenantA.example.com:3000")\<close> is \<open>"tenantA"\<close>, which the
  tenant directory later trims and lower-cases to \<open>"tenanta"\<close>;
  \<open>extractSubdomain("localhost:3000")\<close> and \<open>extractSubdomain("example.com")\<close> are
  \<open>null\<close>. In general the host is the input up to its first colon; the result is \<open>null\<close>
  for the two loopback names and for a host with fewer than two dots (fewer than three
  labels), and the text before the first dot otherwise. Both copies of the function
  agree.
\<close>

theorem extractSubdomain_first_label:
  "extractSubdomain ''tenantA.example.com:3000'' = Some ''tenantA'' \<and>
   trim (toLowerCase ''tenantA'') = ''tenanta'' \<and>
   extractSubdomain ''localhost:3000'' = None \<and>
   extractSubdomain ''example.com'' = None \<and>
   extractSubdomain hostname =
     (let host = takeWhile (\<lambda>c. c \<noteq> CHR '':'') hostname in
      if host = ''localhost'' \<or> host = ''127.0.0.1'' then None
      else if length (filter (\<lambda>c. c = CHR ''.'') host) < 2 then None
      else Some (takeWhile (\<lambda>c. c \<noteq> CHR ''.'') host)) \<and>
   extractSubdomain_server hostname = extractSubdomain hostname"
proof -
  have ex1: "extractSubdomain ''tenantA.example.com:3000'' = Some ''tenantA''"
    by (simp add: extractSubdomain_def)
  have low: "trim (toLowerCase ''tenantA'') = ''tenanta''"
    by (simp add: trim_def toLowerCase_def toLowerCase_char_def upperCaseLetters_def lowerCaseLetters_def isWhiteSpace_def)
  have ex2: "extractSubdomain ''localhost:3000'' = None"
    by (simp add: extractSubdomain_def)
  have ex3: "extractSubdomain ''example.com'' = None"
    by (simp add: extractSubdomain_def)
  have gen: "extractSubdomain hostname =
     (let host = takeWhile (\<lambda>c. c \<noteq> CHR '':'') hostname in
      if host = ''localhost'' \<or> host = ''127.0.0.1'' then None
      else if length (filter (\<lambda>c. c = CHR ''.'') host) < 2 then None
      else Some (takeWhile (\<lambda>c. c \<noteq> CHR ''.'') host))"
    unfolding extractSubdomain_def Let_def hd_split length_split by auto
  have srv: "extractSubdomain_server hostname = extractSubdomain hostname"
    by (simp add: extractSubdomain_server_def extractSubdomain_def)
  from ex1 low ex2 ex3 gen srv show ?thesis by blast
qed

section \<open>Tenant directory\<close>

text \<open>
  C7: \<open>getTenantBySubdomain\<close> never rejects; it answers \<open>null\<close> when the storage call
  fails and when no tenant has the subdomain, so the two cannot be told apart. A tenant
  it returns is the row whose subdomain is the trimmed, lower-cased input, and two inputs
  with the same trimmed, lower-cased form get the same answer.
\<close>

theorem getTenantBySubdomain_collapses_failures:
  "(\<exists>r. getTenantBySubdomain st subdomain = Inr r) \<and>
   (\<not> online st \<longrightarrow> getTenantBySubdomain st subdomain = Inr None) \<and>
   (find (\<lambda>t. t_subdomain t = trim (toLowerCase subdomain)) (tenants st) = None \<longrightarrow>
      getTenantBySubdomain st subdomain = Inr None) \<and>
   (getTenantBySubdomain st subdomain = Inr (Some t) \<longrightarrow>
      online st \<and> t \<in> set (tenants st) \<and> t_subdomain t = trim (toLowerCase subdomain)) \<and>
   (trim (toLowerCase subdomain') = trim (toLowerCase subdomain) \<longrightarrow>
      getTenantBySubdomain st subdomain' = getTenantBySubdomain st subdomain)"
proof -
  have a: "\<exists>r. getTenantBySubdomain st subdomain = Inr r"
    by (simp add: getTenantBySubdomain_def split: sum.splits)
  have b: "\<not> online st \<longrightarrow> getTenantBySubdomain st subdomain = Inr None"
    by (simp add: getTenantBySubdomain_def prisma_tenant_findUnique_def)
  have c: "find (\<lambda>t. t_subdomain t = trim (toLowerCase subdomain)) (tenants st) = None \<longrightarrow>
      getTenantBySubdomain st subdomain = Inr None"
    by (simp add: getTenantBySubdomain_def prisma_tenant_findUnique_def)
  have d: "getTenantBySubdomain st subdomain = Inr (Some t) \<longrightarrow>
      online st \<and> t \<in> set (tenants st) \<and> t_subdomain t = trim (toLowerCase subdomain)"
    by (auto simp: getTenantBySubdomain_def prisma_tenant_findUnique_def find_Some_iff
             split: if_splits)
  have e: "trim (toLowerCase subdomain') = trim (toLowerCase subdomain) \<longrightarrow>
      getTenantBySubdomain st subdomain' = getTenantBySubdomain st subdomain"
    by (simp add: getTenantBySubdomain_def)
  from a b c d e show ?thesis by blast
qed

theorem getTenantBySubdomain_collapses_failures_witness:
  "\<not> online (deployment\<lparr>online := False\<rparr>) \<and>
   getTenantBySubdomain (deployment\<lparr>online := False\<rparr>) ''acme'' = Inr None \<and>
   find (\<lambda>t. t_subdomain t = trim (toLowerCase ''nobody'')) (tenants deployment) = None \<and>
   getTenantBySubdomain deployment ''nobody'' = Inr None \<and>
   getTenantBySubdomain deployment '' ACME '' = Inr (Some acme) \<and>
   t_subdomain acme = trim (toLowerCase '' ACME '') \<and>
   trim (toLowerCase ''acme'') = trim (toLowerCase '' ACME '') \<and>
   getTenantBySubdomain deployment ''acme'' = getTenantBySubdomain deployment '' ACME ''"
proof -
  have norm: "trim (toLowerCase '' ACME '') = ''acme''" "trim (toLowerCase ''acme'') = ''acme''"
    "trim (toLowerCase ''nobody'') = ''nobody''"
    by (simp_all add: trim_def toLowerCase_def toLowerCase_char_def upperCaseLetters_def lowerCaseLetters_def isWhiteSpace_def)
  have off: "\<not> online (deployment\<lparr>online := False\<rparr>)"
    by simp
  have none: "find (\<lambda>t. t_subdomain t = trim (toLowerCase ''nobody'')) (tenants deployment) = None"
    by (simp add: norm deployment_def acme_def other_def)
  have found: "getTenantBySubdomain deployment '' ACME '' = Inr (Some acme)"
    by (simp add: getTenantBySubdomain_def prisma_tenant_findUnique_def norm deployment_def
        acme_def other_def)
  have same: "trim (toLowerCase ''acme'') = trim (toLowerCase '' ACME '')"
    by (simp add: norm)
  show ?thesis
    using off none found same
      getTenantBySubdomain_collapses_failures [of "deployment\<lparr>online := False\<rparr>" "''acme''"]
      getTenantBySubdomain_collapses_failures [of deployment "''nobody''"]
      getTenantBySubdomain_collapses_failures [of deployment "'' ACME ''" acme "''acme''"]
    by blast
qed

section \<open>Session store\<close>

text \<open>
  C9, as the spec states it, has no session row with the token left after a revoke, for
  every token. When the storage call fails, \<open>deleteSession\<close> catches the failure and
  returns normally, and the row is still there, after one call and after two.
\<close>

theorem deleteSession_row_remains_counterexample:
  "s_token alice_session = ''tok-1'' \<and>
   fst (deleteSession (deployment\<lparr>online := False\<rparr>) ''tok-1'') = Inr () \<and>
   sessions (snd (deleteSession (deployment\<lparr>online := False\<rparr>) ''tok-1'')) =
     [alice_session] \<and>
   fst (deleteSession (snd (deleteSession (deployment\<lparr>online := False\<rparr>) ''tok-1''))
          ''tok-1'') = Inr () \<and>
   sessions (snd (deleteSession
       (snd (deleteSession (deployment\<lparr>online := False\<rparr>) ''tok-1'')) ''tok-1'')) =
     [alice_session]"
  by (simp add: deleteSession_def prisma_session_delete_def deployment_def alice_session_def)

text \<open>
  C9 (amended): \<open>deleteSession\<close> never rejects, in particular not when no row has the
  token (the state is then left as it is). Whenever the storage engine carries the
  delete out, no session row with the token is left after one call, nor after two. A
  second call in succession returns what the first returned and leaves the state the
  first left.
\<close>

theorem deleteSession_idempotent:
  "fst (deleteSession st token) = Inr () \<and>
   (find (\<lambda>s. s_token s = token) (sessions st) = None \<longrightarrow>
      deleteSession st token = (Inr (), st)) \<and>
   (online st \<longrightarrow>
      find (\<lambda>s. s_token s = token) (sessions (snd (deleteSession st token))) = None \<and>
      find (\<lambda>s. s_token s = token)
        (sessions (snd (deleteSession (snd (deleteSession st token)) token))) = None) \<and>
   deleteSession (snd (deleteSession st token)) token = deleteSession st token"
proof -
  have ne: "fst (deleteSession st token) = Inr ()" for st
    by (simp add: deleteSession_def prisma_session_delete_def split: option.splits)
  have ab: "find (\<lambda>s. s_token s = token) (sessions st) = None \<longrightarrow>
      deleteSession st token = (Inr (), st)" for st
    by (simp add: deleteSession_def prisma_session_delete_def)
  have gone: "online st \<longrightarrow>
      find (\<lambda>s. s_token s = token) (sessions (snd (deleteSession st token))) = None" for st
    by (auto simp: deleteSession_def prisma_session_delete_def find_None_iff split: option.splits)
  have on: "online (snd (deleteSession st token)) = online st"
    by (simp add: deleteSession_def prisma_session_delete_def split: option.splits)
  have twice: "deleteSession (snd (deleteSession st token)) token = deleteSession st token"
  proof (cases "online st")
    case True
    with gone have "find (\<lambda>s. s_token s = token) (sessions (snd (deleteSession st token))) = None"
      by simp
    with ab have "deleteSession (snd (deleteSession st token)) token = (Inr (), snd (deleteSession st token))"
      by blast
    with ne [of st] show ?thesis by (simp add: prod_eq_iff)
  next
    case False
    then show ?thesis by (simp add: deleteSession_def prisma_session_delete_def)
  qed
  from ne ab gone twice on show ?thesis by metis
qed

theorem deleteSession_idempotent_witness:
  "online deployment \<and>
   find (\<lambda>s. s_token s = ''tok-1'') (sessions deployment) \<noteq> None \<and>
   find (\<lambda>s. s_token s = ''tok-1'') (sessions (snd (deleteSession deployment ''tok-1''))) = None \<and>
   find (\<lambda>s. s_token s = ''tok-9'') (sessions deployment) = None \<and>
   deleteSession deployment ''tok-9'' = (Inr (), deployment) \<and>
   deleteSession (snd (deleteSession deployment ''tok-1'')) ''tok-1'' =
     deleteSession deployment ''tok-1''"
proof -
  have on: "online deployment"
    by (simp add: deployment_def)
  have present: "find (\<lambda>s. s_token s = ''tok-1'') (sessions deployment) \<noteq> None"
    by (simp add: deployment_def alice_session_def)
  have absent: "find (\<lambda>s. s_token s = ''tok-9'') (sessions deployment) = None"
    by (simp add: deployment_def alice_session_def)
  show ?thesis
    using on present absent
      deleteSession_idempotent [of deployment "''tok-1''"]
      deleteSession_idempotent [of deployment "''tok-9''"]
    by blast
qed

text \<open>
  C1: let \<open>T1\<close> and \<open>T2\<close> be tenants with different ids and \<open>U1\<close> a user of \<open>T1\<close>
  whose session row is the one the cookie's token selects. Validating with
  \<open>expectedTenantId = T2.id\<close> answers \<open>null\<close>, whether or not the session is otherwise
  valid and unexpired, and that is the answer for a request without a cookie or with a
  token no row has. A tenant id is a UUID primary key of the tenant table
  (TASK_1_SETUP.md), so it is never the empty string; that is the only fact about ids
  the theorem uses.
\<close>

theorem getSession_cross_tenant:
  assumes tenants: "t_id T1 \<noteq> t_id T2" "t_id T2 \<noteq> []"
    and owner: "u_tenantId U1 = t_id T1"
    and cookie: "cookies st SESSION_COOKIE_NAME = Some c"
    and row: "prisma_session_findUnique st (c_value c) = Inr (Some session)"
      "s_userId session = u_id U1" "s_tenantId session = u_tenantId U1"
    and unknown: "cookies st' SESSION_COOKIE_NAME = None \<or>
      (\<exists>c'. cookies st' SESSION_COOKIE_NAME = Some c' \<and>
            prisma_session_findUnique st' (c_value c') = Inr None)"
  shows "fst (getSession ev st (Some (t_id T2))) = Inr None \<and>
         fst (getSession ev st (Some (t_id T2))) = fst (getSession ev' st' (Some (t_id T2)))"
proof -
  have cross: "fst (getSession ev st (Some (t_id T2))) = Inr None"
    using tenants owner cookie row
    by (simp add: getSession_def Let_def deleteSession_def prisma_session_delete_def
        split: option.splits sum.splits prod.splits)
  have bad: "fst (getSession ev' st' (Some (t_id T2))) = Inr None"
    using unknown by (auto simp: getSession_def Let_def)
  from cross bad show ?thesis by simp
qed

theorem getSession_cross_tenant_witness:
  "t_id acme \<noteq> t_id other \<and> t_id other \<noteq> [] \<and> u_tenantId alice = t_id acme \<and>
   cookies deployment SESSION_COOKIE_NAME = Some (token_cookie ''tok-1'') \<and>
   prisma_session_findUnique deployment (c_value (token_cookie ''tok-1'')) =
     Inr (Some alice_session) \<and>
   fst (getSession (clock 500) deployment (Some (t_id acme))) \<noteq> Inr None \<and>
   fst (getSession (clock 500) deployment (Some (t_id other))) = Inr None \<and>
   fst (getSession (clock 500) deployment (Some (t_id other))) =
     fst (getSession (clock 500) (deployment\<lparr>cookies := Map.empty\<rparr>) (Some (t_id other)))"
proof -
  have ids: "t_id acme \<noteq> t_id other" "t_id other \<noteq> []" "u_tenantId alice = t_id acme"
    by (simp_all add: acme_def other_def alice_def)
  have cookie: "cookies deployment SESSION_COOKIE_NAME = Some (token_cookie ''tok-1'')"
    by (simp add: deployment_def SESSION_COOKIE_NAME_def)
  have row: "prisma_session_findUnique deployment (c_value (token_cookie ''tok-1'')) =
      Inr (Some alice_session)"
    "s_userId alice_session = u_id alice" "s_tenantId alice_session = u_tenantId alice"
    by (simp_all add: prisma_session_findUnique_def deployment_def alice_session_def
        token_cookie_def alice_def)
  have unknown: "cookies (deployment\<lparr>cookies := Map.empty\<rparr>) SESSION_COOKIE_NAME = None \<or>
      (\<exists>c'. cookies (deployment\<lparr>cookies := Map.empty\<rparr>) SESSION_COOKIE_NAME = Some c' \<and>
            prisma_session_findUnique (deployment\<lparr>cookies := Map.empty\<rparr>) (c_value c') = Inr None)"
    by simp
  have valid: "fst (getSession (clock 500) deployment (Some (t_id acme))) \<noteq> Inr None"
    by (simp add: getSession_def Let_def prisma_session_findUnique_def deployment_def
        alice_session_def token_cookie_def clock_def SESSION_COOKIE_NAME_def acme_def)
  note c = getSession_cross_tenant [OF ids cookie row unknown, of "clock 500" "clock 500"]
  from ids cookie row(1) valid c show ?thesis by blast
qed

text \<open>
  C3, as the spec states it, treats a session whose \<open>expiresAt\<close> equals the time of the
  validation as expired. The test in \<open>getSession\<close> is \<open>session.expiresAt < new Date()\<close>:
  at equality the session is returned and its row stays.
\<close>

theorem getSession_expiry_boundary_counterexample:
  "s_expiresAt alice_session = e_now (clock 1000) \<and>
   cookies deployment SESSION_COOKIE_NAME = Some (token_cookie (s_token alice_session)) \<and>
   fst (getSession (clock 1000) deployment (Some ''t-acme'')) =
     Inr (Some \<lparr>sd_userId = ''u-1'', sd_tenantId = ''t-acme'', sd_token = ''tok-1''\<rparr>) \<and>
   sessions (snd (getSession (clock 1000) deployment (Some ''t-acme''))) = [alice_session]"
  by (simp add: getSession_def Let_def deployment_def alice_session_def clock_def
      token_cookie_def SESSION_COOKIE_NAME_def prisma_session_findUnique_def)

text \<open>
  C3 (amended): a session whose \<open>expiresAt\<close> is strictly before the time of the
  validation is expired: the call answers \<open>null\<close> and removes the row in that same
  call. A session whose \<open>expiresAt\<close> equals that time is still valid: it is returned
  (when the tenant check lets it through) and the state is untouched.
\<close>

theorem getSession_expiry:
  assumes cookie: "cookies st SESSION_COOKIE_NAME = Some c" "c_value c \<noteq> []"
    and row: "prisma_session_findUnique st (c_value c) = Inr (Some session)"
  shows "(s_expiresAt session < e_now ev \<longrightarrow>
            getSession ev st tenantId =
              (Inr None, st\<lparr>sessions := filter (\<lambda>s. s_token s \<noteq> c_value c) (sessions st)\<rparr>) \<and>
            find (\<lambda>s. s_token s = c_value c) (sessions (snd (getSession ev st tenantId))) = None) \<and>
         (s_expiresAt session = e_now ev \<longrightarrow>
            (tenantId = None \<or> tenantId = Some [] \<or> tenantId = Some (s_tenantId session)) \<longrightarrow>
            getSession ev st tenantId =
              (Inr (Some \<lparr>sd_userId = s_userId session, sd_tenantId = s_tenantId session,
                           sd_token = s_token session\<rparr>), st))"
proof -
  from row have on: "online st" and f: "find (\<lambda>s. s_token s = c_value c) (sessions st) = Some session"
    by (auto simp: prisma_session_findUnique_def split: if_splits)
  have expired: "getSession ev st tenantId =
              (Inr None, st\<lparr>sessions := filter (\<lambda>s. s_token s \<noteq> c_value c) (sessions st)\<rparr>)"
    if "s_expiresAt session < e_now ev"
    using that cookie row on f
    by (simp add: getSession_def Let_def deleteSession_def prisma_session_delete_def)
  have gone: "find (\<lambda>s. s_token s = c_value c)
       (sessions (st\<lparr>sessions := filter (\<lambda>s. s_token s \<noteq> c_value c) (sessions st)\<rparr>)) = None"
    by (simp add: find_None_iff)
  have kept: "getSession ev st tenantId =
              (Inr (Some \<lparr>sd_userId = s_userId session, sd_tenantId = s_tenantId session,
                           sd_token = s_token session\<rparr>), st)"
    if "s_expiresAt session = e_now ev"
      "tenantId = None \<or> tenantId = Some [] \<or> tenantId = Some (s_tenantId session)"
    using that cookie row
    by (auto simp: getSession_def Let_def)
  from expired gone kept show ?thesis by simp
qed

theorem getSession_expiry_witness:
  "cookies deployment SESSION_COOKIE_NAME = Some (token_cookie ''tok-1'') \<and>
   prisma_session_findUnique deployment (c_value (token_cookie ''tok-1'')) =
     Inr (Some alice_session) \<and>
   s_expiresAt alice_session < e_now (clock 1001) \<and>
   fst (getSession (clock 1001) deployment (Some ''t-acme'')) = Inr None \<and>
   find (\<lambda>s. s_token s = c_value (token_cookie ''tok-1''))
     (sessions (snd (getSession (clock 1001) deployment (Some ''t-acme'')))) = None \<and>
   s_expiresAt alice_session = e_now (clock 1000) \<and>
   getSession (clock 1000) deployment (Some ''t-acme'') =
     (Inr (Some \<lparr>sd_userId = s_userId alice_session, sd_tenantId = s_tenantId alice_session,
                  sd_token = s_token alice_session\<rparr>), deployment)"
proof -
  have cookie: "cookies deployment SESSION_COOKIE_NAME = Some (token_cookie ''tok-1'')"
    "c_value (token_cookie ''tok-1'') \<noteq> []"
    by (simp_all add: deployment_def SESSION_COOKIE_NAME_def token_cookie_def)
  have row: "prisma_session_findUnique deployment (c_value (token_cookie ''tok-1'')) =
      Inr (Some alice_session)"
    by (simp add: prisma_session_findUnique_def deployment_def alice_session_def
        token_cookie_def)
  have late: "s_expiresAt alice_session < e_now (clock 1001)"
    by (simp add: alice_session_def clock_def)
  have edge: "s_expiresAt alice_session = e_now (clock 1000)"
    by (simp add: alice_session_def clock_def)
  have tenant: "Some ''t-acme'' = Some (s_tenantId alice_session)"
    by (simp add: alice_session_def)
  note a = getSession_expiry [OF cookie row, of "clock 1001" "Some ''t-acme''"]
  note b = getSession_expiry [OF cookie row, of "clock 1000" "Some ''t-acme''"]
  from a late have
    a1: "getSession (clock 1001) deployment (Some ''t-acme'') =
       (Inr None, deployment\<lparr>sessions :=
          filter (\<lambda>s. s_token s \<noteq> c_value (token_cookie ''tok-1'')) (sessions deployment)\<rparr>)"
    and a2: "find (\<lambda>s. s_token s = c_value (token_cookie ''tok-1''))
     (sessions (snd (getSession (clock 1001) deployment (Some ''t-acme'')))) = None"
    by blast+
  from a1 have a3: "fst (getSession (clock 1001) deployment (Some ''t-acme'')) = Inr None"
    by (rule arg_cong [where f = fst, THEN trans]) (rule fst_conv)
  from b edge tenant have
    b1: "getSession (clock 1000) deployment (Some ''t-acme'') =
     (Inr (Some \<lparr>sd_userId = s_userId alice_session, sd_tenantId = s_tenantId alice_session,
                  sd_token = s_token alice_session\<rparr>), deployment)"
    by blast
  from cookie(1) row late a3 a2 edge b1 show ?thesis by blast
qed

text \<open>
  C10: for a token whose row exists and has not expired, \<open>getSession()\<close> and
  \<open>getSession("")\<close> return the identity stored in the row, whatever tenant it belongs
  to; the answer is \<open>null\<close> exactly when the expected tenant id is a non-empty string
  different from the row's tenant id.
\<close>

theorem getSession_tenant_check_truthy:
  assumes cookie: "cookies st SESSION_COOKIE_NAME = Some c" "c_value c \<noteq> []"
    and row: "prisma_session_findUnique st (c_value c) = Inr (Some session)"
    and fresh: "\<not> s_expiresAt session < e_now ev"
  shows "getSession ev st None =
           (Inr (Some \<lparr>sd_userId = s_userId session, sd_tenantId = s_tenantId session,
                        sd_token = s_token session\<rparr>), st) \<and>
         getSession ev st (Some []) =
           (Inr (Some \<lparr>sd_userId = s_userId session, sd_tenantId = s_tenantId session,
                        sd_token = s_token session\<rparr>), st) \<and>
         (fst (getSession ev st tenantId) = Inr None) =
           (\<exists>t. tenantId = Some t \<and> t \<noteq> [] \<and> t \<noteq> s_tenantId session)"
  using cookie row fresh
  by (cases tenantId) (auto simp: getSession_def Let_def)

theorem getSession_tenant_check_truthy_witness:
  "cookies deployment SESSION_COOKIE_NAME = Some (token_cookie ''tok-1'') \<and>
   prisma_session_findUnique deployment ''tok-1'' = Inr (Some alice_session) \<and>
   \<not> s_expiresAt alice_session < e_now (clock 500) \<and>
   fst (getSession (clock 500) deployment None) =
     Inr (Some \<lparr>sd_userId = ''u-1'', sd_tenantId = ''t-acme'', sd_token = ''tok-1''\<rparr>) \<and>
   fst (getSession (clock 500) deployment (Some [])) =
     Inr (Some \<lparr>sd_userId = ''u-1'', sd_tenantId = ''t-acme'', sd_token = ''tok-1''\<rparr>) \<and>
   fst (getSession (clock 500) deployment (Some ''t-other'')) = Inr None"
proof -
  have cookie: "cookies deployment SESSION_COOKIE_NAME = Some (token_cookie ''tok-1'')"
    "c_value (token_cookie ''tok-1'') \<noteq> []"
    by (simp_all add: deployment_def SESSION_COOKIE_NAME_def token_cookie_def)
  have row: "prisma_session_findUnique deployment (c_value (token_cookie ''tok-1'')) =
      Inr (Some alice_session)"
    by (simp add: prisma_session_findUnique_def deployment_def alice_session_def
        token_cookie_def)
  have fresh: "\<not> s_expiresAt alice_session < e_now (clock 500)"
    by (simp add: alice_session_def clock_def)
  from getSession_tenant_check_truthy [OF cookie row fresh, of "Some ''t-other''"]
    cookie row fresh
  show ?thesis by (simp add: token_cookie_def alice_session_def)
qed

text \<open>
  C5: on a store that is available, with a token no session row has yet (32 random
  bytes, 64 hexadecimal digits), \<open>createSession(userId, tenantId)\<close> succeeds and
  returns the token, and \<open>getSession(tenantId)\<close> on the cookie it has set, at any time up
  to the expiry (in particular at once), returns that \<open>userId\<close> and \<open>tenantId\<close> with
  the token, and nothing else; the validation leaves the state as it is.
\<close>

theorem createSession_getSession_roundtrip:
  assumes on: "online st"
    and bytes: "length (e_randomBytes ev) = 32"
    and fresh: "find (\<lambda>s. s_token s = generateSessionToken ev) (sessions st) = None"
    and live: "e_now ev' \<le> e_now ev + SESSION_EXPIRATION_DAYS * 86400000"
  shows "\<exists>st1. createSession ev st userId tenantId = (Inr (generateSessionToken ev), st1) \<and>
           getSession ev' st1 (Some tenantId) =
             (Inr (Some \<lparr>sd_userId = userId, sd_tenantId = tenantId,
                          sd_token = generateSessionToken ev\<rparr>), st1)"
proof -
  from bytes have ne: "generateSessionToken ev \<noteq> []"
    using length_generateSessionToken [of ev] by auto
  from fresh have nf: "\<And>s. s \<in> set (sessions st) \<Longrightarrow> s_token s \<noteq> generateSessionToken ev"
    by (auto simp: find_None_iff)
  show ?thesis
    using on fresh live ne
    by (simp add: createSession_def prisma_session_create_def Let_def getSession_def
        prisma_session_findUnique_def find_app)
qed

theorem createSession_getSession_roundtrip_witness:
  "online deployment \<and> length (e_randomBytes (clock 0)) = 32 \<and>
   find (\<lambda>s. s_token s = generateSessionToken (clock 0)) (sessions deployment) = None \<and>
   e_now (clock 0) \<le> e_now (clock 0) + SESSION_EXPIRATION_DAYS * 86400000 \<and>
   (\<exists>st1. createSession (clock 0) deployment ''u-1'' ''t-acme'' =
            (Inr (generateSessionToken (clock 0)), st1) \<and>
          getSession (clock 0) st1 (Some ''t-acme'') =
            (Inr (Some \<lparr>sd_userId = ''u-1'', sd_tenantId = ''t-acme'',
                         sd_token = generateSessionToken (clock 0)\<rparr>), st1))"
proof -
  have on: "online deployment"
    by (simp add: deployment_def)
  have bytes: "length (e_randomBytes (clock 0)) = 32"
    by (simp add: clock_def)
  have "length (generateSessionToken (clock 0)) = 64"
    using bytes by (simp add: length_generateSessionToken)
  then have "generateSessionToken (clock 0) \<noteq> ''tok-1''"
    by auto
  then have fresh:
    "find (\<lambda>s. s_token s = generateSessionToken (clock 0)) (sessions deployment) = None"
    by (auto simp: deployment_def alice_session_def)
  have live: "e_now (clock 0) \<le> e_now (clock 0) + SESSION_EXPIRATION_DAYS * 86400000"
    by (simp add: SESSION_EXPIRATION_DAYS_def)
  from createSession_getSession_roundtrip [OF on bytes fresh live, of "''u-1''" "''t-acme''"]
    on bytes fresh live
  show ?thesis by blast
qed

section \<open>Authentication gate\<close>

text \<open>
  C2: \<open>getSessionUser(T)\<close> returns \<open>null\<close> or a user whose \<open>tenantId\<close> is \<open>T\<close>, and
  \<open>getAuthenticatedUser\<close> returns \<open>null\<close> or a user whose \<open>tenantId\<close> is the id of the
  tenant the request resolves to. A user returned by \<open>getSessionUser(T)\<close> is a row of the
  user table that the validated session refers to. The answer is \<open>null\<close> when the
  session is invalid, when the row the session refers to is missing, and when that
  row's tenant id differs from \<open>T\<close>. \<open>getAuthenticatedUser\<close> returns a user only for a
  request whose tenant resolves, and then the user's tenant id is that tenant's id.
\<close>

theorem getSessionUser_tenant:
  "(fst (getSessionUser ev st tenantId) = Inr None \<or>
    (\<exists>v. fst (getSessionUser ev st tenantId) = Inr (Some v) \<and> su_tenantId v = tenantId)) \<and>
   (fst (getAuthenticatedUser ev st request) = Inr None \<or>
    (\<exists>v tenant. fst (getAuthenticatedUser ev st request) = Inr (Some v) \<and>
        getTenantFromRequest st request = Inr (Some tenant) \<and> su_tenantId v = t_id tenant)) \<and>
   (fst (getSessionUser ev st tenantId) = Inr (Some u) \<longrightarrow>
      su_tenantId u = tenantId \<and>
      (\<exists>session user. fst (getSession ev st (Some tenantId)) = Inr (Some session) \<and>
         user \<in> set (users st) \<and> u_id user = sd_userId session \<and>
         u_tenantId user = tenantId \<and> su_id u = u_id user)) \<and>
   (getSession ev st (Some tenantId) = (Inr (Some session), st') \<longrightarrow>
      prisma_user_findUnique st' (sd_userId session) = Inr None \<longrightarrow>
      fst (getSessionUser ev st tenantId) = Inr None) \<and>
   (getSession ev st (Some tenantId) = (Inr (Some session), st') \<longrightarrow>
      prisma_user_findUnique st' (sd_userId session) = Inr (Some user) \<longrightarrow>
      u_tenantId user \<noteq> tenantId \<longrightarrow>
      fst (getSessionUser ev st tenantId) = Inr None) \<and>
   (fst (getSession ev st (Some tenantId)) = Inr None \<longrightarrow>
      fst (getSessionUser ev st tenantId) = Inr None) \<and>
   (fst (getAuthenticatedUser ev st request) = Inr (Some u) \<longrightarrow>
      (\<exists>tenant. getTenantFromRequest st request = Inr (Some tenant) \<and>
         su_tenantId u = t_id tenant)) \<and>
   (getTenantFromRequest st request = Inr None \<longrightarrow>
      fst (getAuthenticatedUser ev st request) = Inr None)"
proof -
  have a: "su_tenantId u = T \<and>
      (\<exists>session user. fst (getSession ev st (Some T)) = Inr (Some session) \<and>
         user \<in> set (users st) \<and> u_id user = sd_userId session \<and>
         u_tenantId user = T \<and> su_id u = u_id user)"
    if ok: "fst (getSessionUser ev st T) = Inr (Some u)" for T
  proof -
    from getSessionUser_Some [OF ok] obtain session st1 user where
      gs: "getSession ev st (Some T) = (Inr (Some session), st1)" and
      fu: "prisma_user_findUnique st1 (sd_userId session) = Inr (Some user)" and
      ut: "u_tenantId user = T" and
      u: "u = \<lparr>su_id = u_id user, su_email = u_email user, su_name = u_name user,
                su_tenantId = u_tenantId user\<rparr>"
      by blast
    from users_getSession [of ev st "Some T"] gs have us: "users st1 = users st"
      by simp
    from prisma_user_findUnique_Some [OF fu] us
    have "user \<in> set (users st)" "u_id user = sd_userId session"
      by simp_all
    with gs ut u show ?thesis by auto
  qed
  have b: "fst (getSessionUser ev st tenantId) = Inr None"
    if "getSession ev st (Some tenantId) = (Inr (Some session), st')"
      "prisma_user_findUnique st' (sd_userId session) = Inr None"
    using that by (simp add: getSessionUser_def)
  have c: "fst (getSessionUser ev st tenantId) = Inr None"
    if "getSession ev st (Some tenantId) = (Inr (Some session), st')"
      "prisma_user_findUnique st' (sd_userId session) = Inr (Some user)"
      "u_tenantId user \<noteq> tenantId"
    using that by (simp add: getSessionUser_def)
  have d: "fst (getSessionUser ev st tenantId) = Inr None"
    if "fst (getSession ev st (Some tenantId)) = Inr None"
    using that by (cases "getSession ev st (Some tenantId)") (simp add: getSessionUser_def)
  have e: "\<exists>tenant. getTenantFromRequest st request = Inr (Some tenant) \<and>
         su_tenantId u = t_id tenant"
    if ok: "fst (getAuthenticatedUser ev st request) = Inr (Some u)"
  proof (cases "getTenantFromRequest st request")
    case (Inl err)
    with ok show ?thesis by (simp add: getAuthenticatedUser_def)
  next
    case (Inr r)
    show ?thesis
    proof (cases r)
      case None
      with Inr ok show ?thesis by (simp add: getAuthenticatedUser_def)
    next
      case (Some tenant)
      with Inr ok have "fst (getSessionUser ev st (t_id tenant)) = Inr (Some u)"
        by (simp add: getAuthenticatedUser_def)
      from a [OF this] Inr Some show ?thesis by simp
    qed
  qed
  have f: "fst (getAuthenticatedUser ev st request) = Inr None"
    if "getTenantFromRequest st request = Inr None"
    using that by (simp add: getAuthenticatedUser_def)
  note g = getSessionUser_returns [of ev st tenantId]
  note h = getAuthenticatedUser_returns [of ev st request]
  from a [of tenantId] b c d e f have rest:
    "(fst (getSessionUser ev st tenantId) = Inr (Some u) \<longrightarrow>
      su_tenantId u = tenantId \<and>
      (\<exists>session user. fst (getSession ev st (Some tenantId)) = Inr (Some session) \<and>
         user \<in> set (users st) \<and> u_id user = sd_userId session \<and>
         u_tenantId user = tenantId \<and> su_id u = u_id user)) \<and>
   (getSession ev st (Some tenantId) = (Inr (Some session), st') \<longrightarrow>
      prisma_user_findUnique st' (sd_userId session) = Inr None \<longrightarrow>
      fst (getSessionUser ev st tenantId) = Inr None) \<and>
   (getSession ev st (Some tenantId) = (Inr (Some session), st') \<longrightarrow>
      prisma_user_findUnique st' (sd_userId session) = Inr (Some user) \<longrightarrow>
      u_tenantId user \<noteq> tenantId \<longrightarrow>
      fst (getSessionUser ev st tenantId) = Inr None) \<and>
   (fst (getSession ev st (Some tenantId)) = Inr None \<longrightarrow>
      fst (getSessionUser ev st tenantId) = Inr None) \<and>
   (fst (getAuthenticatedUser ev st request) = Inr (Some u) \<longrightarrow>
      (\<exists>tenant. getTenantFromRequest st request = Inr (Some tenant) \<and>
         su_tenantId u = t_id tenant)) \<and>
   (getTenantFromRequest st request = Inr None \<longrightarrow>
      fst (getAuthenticatedUser ev st request) = Inr None)"
    by blast
  from g h rest show ?thesis by (intro conjI) blast+
qed

theorem getSessionUser_tenant_witness:
  "fst (getSessionUser (clock 500) deployment ''t-acme'') =
     Inr (Some \<lparr>su_id = ''u-1'', su_email = ''a@x.com'', su_name = Some ''Alice'',
                 su_tenantId = ''t-acme''\<rparr>) \<and>
   su_tenantId \<lparr>su_id = ''u-1'', su_email = ''a@x.com'', su_name = Some ''Alice'',
                 su_tenantId = ''t-acme''\<rparr> = ''t-acme'' \<and>
   fst (getSessionUser (clock 500) (deployment\<lparr>users := []\<rparr>) ''t-acme'') = Inr None \<and>
   fst (getSessionUser (clock 500)
          (deployment\<lparr>users := [alice\<lparr>u_tenantId := ''t-other''\<rparr>]\<rparr>) ''t-acme'') = Inr None \<and>
   fst (getSessionUser (clock 500) deployment ''t-other'') = Inr None \<and>
   fst (getAuthenticatedUser (clock 500) deployment (request_for ''acme'' None)) =
     Inr (Some \<lparr>su_id = ''u-1'', su_email = ''a@x.com'', su_name = Some ''Alice'',
                 su_tenantId = ''t-acme''\<rparr>) \<and>
   getTenantFromRequest deployment (request_for ''acme'' None) = Inr (Some acme) \<and>
   t_id acme = ''t-acme''"
proof -
  let ?u = "\<lparr>su_id = ''u-1'', su_email = ''a@x.com'', su_name = Some ''Alice'',
             su_tenantId = ''t-acme''\<rparr>"
  let ?sd = "\<lparr>sd_userId = ''u-1'', sd_tenantId = ''t-acme'', sd_token = ''tok-1''\<rparr>"
  have gs: "getSession (clock 500) (deployment\<lparr>users := us\<rparr>) (Some ''t-acme'') =
      (Inr (Some ?sd), deployment\<lparr>users := us\<rparr>)" for us
    by (simp add: getSession_def Let_def prisma_session_findUnique_def deployment_def
        alice_session_def token_cookie_def clock_def SESSION_COOKIE_NAME_def)
  have gs0: "getSession (clock 500) deployment (Some ''t-acme'') = (Inr (Some ?sd), deployment)"
    by (simp add: getSession_def Let_def prisma_session_findUnique_def deployment_def
        alice_session_def token_cookie_def clock_def SESSION_COOKIE_NAME_def)
  have ok: "fst (getSessionUser (clock 500) deployment ''t-acme'') = Inr (Some ?u)"
    by (simp add: getSessionUser_def gs0 prisma_user_findUnique_def)
      (simp add: deployment_def alice_def)
  have missing: "prisma_user_findUnique (deployment\<lparr>users := []\<rparr>) (sd_userId ?sd) = Inr None"
    by (simp add: prisma_user_findUnique_def deployment_def)
  have moved: "prisma_user_findUnique (deployment\<lparr>users := [alice\<lparr>u_tenantId := ''t-other''\<rparr>]\<rparr>)
      (sd_userId ?sd) = Inr (Some (alice\<lparr>u_tenantId := ''t-other''\<rparr>))"
    "u_tenantId (alice\<lparr>u_tenantId := ''t-other''\<rparr>) \<noteq> ''t-acme''"
    by (simp_all add: prisma_user_findUnique_def deployment_def alice_def)
  have cross: "fst (getSession (clock 500) deployment (Some ''t-other'')) = Inr None"
    by (simp add: getSession_def Let_def prisma_session_findUnique_def deployment_def
        alice_session_def token_cookie_def clock_def SESSION_COOKIE_NAME_def)
  have auth: "fst (getAuthenticatedUser (clock 500) deployment (request_for ''acme'' None)) =
      Inr (Some ?u)"
    using ok by (simp add: getAuthenticatedUser_def tenant_acme acme_def)
  have tid: "t_id acme = ''t-acme''"
    by (simp add: acme_def)
  note t1 = getSessionUser_tenant [where ev = "clock 500" and st = deployment
      and tenantId = "''t-acme''" and u = ?u]
  note t2 = getSessionUser_tenant [where ev = "clock 500" and st = "deployment\<lparr>users := []\<rparr>"
      and tenantId = "''t-acme''" and session = ?sd and st' = "deployment\<lparr>users := []\<rparr>"]
  note t3 = getSessionUser_tenant [where ev = "clock 500"
      and st = "deployment\<lparr>users := [alice\<lparr>u_tenantId := ''t-other''\<rparr>]\<rparr>"
      and tenantId = "''t-acme''" and session = ?sd
      and st' = "deployment\<lparr>users := [alice\<lparr>u_tenantId := ''t-other''\<rparr>]\<rparr>"
      and user = "alice\<lparr>u_tenantId := ''t-other''\<rparr>"]
  note t4 = getSessionUser_tenant [where ev = "clock 500" and st = deployment
      and tenantId = "''t-other''"]
  from t1 ok have c1: "su_tenantId ?u = ''t-acme''" by blast
  from t2 gs [of "[]"] missing
  have c2: "fst (getSessionUser (clock 500) (deployment\<lparr>users := []\<rparr>) ''t-acme'') = Inr None"
    by blast
  from t3 gs [of "[alice\<lparr>u_tenantId := ''t-other''\<rparr>]"] moved
  have c3: "fst (getSessionUser (clock 500)
          (deployment\<lparr>users := [alice\<lparr>u_tenantId := ''t-other''\<rparr>]\<rparr>) ''t-acme'') = Inr None"
    by blast
  from t4 cross have c4: "fst (getSessionUser (clock 500) deployment ''t-other'') = Inr None"
    by blast
  from ok c1 c2 c3 c4 auth tenant_acme tid show ?thesis by blast
qed

section \<open>Login and signup\<close>

text \<open>
  C6: take two login requests with well-formed bodies (both fields present and
  non-empty), each for a tenant that resolves. If the first names an e-mail address no
  user of its tenant has and the second names a user of its tenant with a password
  that does not verify, both get the same response, status 401 with the message
  \<open>Invalid email or password\<close>, and neither changes the state (no session, no cookie).
\<close>

theorem login_no_user_enumeration:
  assumes tenant1: "getTenantFromRequest st1 request1 = Inr (Some tenant1)"
    and body1: "r_body request1 = Some body1" "b_email body1 = Some email1" "email1 \<noteq> []"
      "b_password body1 = Some password1" "password1 \<noteq> []"
    and no_user: "dbUser_findByEmail st1 (t_id tenant1) email1 = Inr None"
    and tenant2: "getTenantFromRequest st2 request2 = Inr (Some tenant2)"
    and body2: "r_body request2 = Some body2" "b_email body2 = Some email2" "email2 \<noteq> []"
      "b_password body2 = Some password2" "password2 \<noteq> []"
    and wrong_password: "dbUser_findByEmail st2 (t_id tenant2) email2 = Inr (Some user)"
      "\<not> comparePassword password2 (u_password user)"
  shows "fst (login_POST comparePassword ev1 st1 request1) =
           fst (login_POST comparePassword ev2 st2 request2) \<and>
         login_POST comparePassword ev1 st1 request1 =
           (Inr \<lparr>status = 401, json = ErrorJson ''Invalid email or password''\<rparr>, st1) \<and>
         login_POST comparePassword ev2 st2 request2 =
           (Inr \<lparr>status = 401, json = ErrorJson ''Invalid email or password''\<rparr>, st2)"
proof -
  have r1: "login_POST comparePassword ev1 st1 request1 =
           (Inr \<lparr>status = 401, json = ErrorJson ''Invalid email or password''\<rparr>, st1)"
    using tenant1 body1 no_user by (simp add: login_POST_def)
  have r2: "login_POST comparePassword ev2 st2 request2 =
           (Inr \<lparr>status = 401, json = ErrorJson ''Invalid email or password''\<rparr>, st2)"
    using tenant2 body2 wrong_password by (simp add: login_POST_def)
  from r1 r2 show ?thesis by simp
qed

theorem login_no_user_enumeration_witness:
  "login_POST verify_digest (clock 0) deployment
     (request_for ''acme'' (Some \<lparr>b_email = Some ''nobody@x.com'', b_password = Some ''1'',
                                  b_name = None\<rparr>)) =
     (Inr \<lparr>status = 401, json = ErrorJson ''Invalid email or password''\<rparr>, deployment) \<and>
   login_POST verify_digest (clock 0) deployment
     (request_for ''acme'' (Some \<lparr>b_email = Some ''a@x.com'', b_password = Some ''2'',
                                  b_name = None\<rparr>)) =
     (Inr \<lparr>status = 401, json = ErrorJson ''Invalid email or password''\<rparr>, deployment) \<and>
   dbUser_findByEmail deployment (t_id acme) ''nobody@x.com'' = Inr None \<and>
   dbUser_findByEmail deployment (t_id acme) ''a@x.com'' = Inr (Some alice) \<and>
   \<not> verify_digest ''2'' (u_password alice) \<and>
   verify_digest ''1'' (u_password alice)"
proof -
  let ?b1 = "\<lparr>b_email = Some ''nobody@x.com'', b_password = Some ''1'', b_name = None\<rparr>"
  let ?b2 = "\<lparr>b_email = Some ''a@x.com'', b_password = Some ''2'', b_name = None\<rparr>"
  have body1: "r_body (request_for ''acme'' (Some ?b1)) = Some ?b1"
    "b_email ?b1 = Some ''nobody@x.com''" "''nobody@x.com'' \<noteq> []"
    "b_password ?b1 = Some ''1''" "''1'' \<noteq> []"
    by (simp_all add: request_for_def)
  have body2: "r_body (request_for ''acme'' (Some ?b2)) = Some ?b2"
    "b_email ?b2 = Some ''a@x.com''" "''a@x.com'' \<noteq> []"
    "b_password ?b2 = Some ''2''" "''2'' \<noteq> []"
    by (simp_all add: request_for_def)
  have no_user: "dbUser_findByEmail deployment (t_id acme) ''nobody@x.com'' = Inr None"
    by (simp add: dbUser_findByEmail_def prisma_user_findUnique_email_tenantId_def
        deployment_def alice_def acme_def)
  have found: "dbUser_findByEmail deployment (t_id acme) ''a@x.com'' = Inr (Some alice)"
    by (simp add: dbUser_findByEmail_def prisma_user_findUnique_email_tenantId_def
        deployment_def alice_def acme_def)
  have wrong: "\<not> verify_digest ''2'' (u_password alice)"
    and right: "verify_digest ''1'' (u_password alice)"
    by (simp_all add: alice_def verify_digest_def)
  note t = login_no_user_enumeration [where comparePassword = verify_digest
      and ?ev1.0 = "clock 0" and ?ev2.0 = "clock 0",
      OF tenant_acme [of "Some ?b1"] body1 no_user tenant_acme [of "Some ?b2"] body2 found wrong]
  from t no_user found wrong right show ?thesis by blast
qed

text \<open>
  C8 asks for the Conflict answer (409) whenever the submitted e-mail address already
  has a user in the tenant, and the handler's documentation lists 409 for an e-mail
  that already exists and says that the address is normalised. The handler looks the
  address up as it was typed and stores it trimmed and lower-cased. In \<open>deployment\<close>
  the tenant \<open>acme\<close> has the user \<open>a@x.com\<close>, which is what a signup with \<open>A@x.com\<close>
  stores. A signup with \<open>a@x.com\<close> is answered 409; a signup with \<open>A@x.com\<close> passes
  the duplicate check, the insert of \<open>a@x.com\<close> breaks the unique constraint on
  \<open>(email, tenantId)\<close>, and the \<open>catch\<close> answers 500. No row is added in either case.
\<close>

theorem signup_case_variant_duplicate:
  "trim (toLowerCase ''A@x.com'') = ''a@x.com'' \<and>
   alice \<in> set (users deployment) \<and> u_email alice = ''a@x.com'' \<and>
   u_tenantId alice = t_id acme \<and>
   signup_POST make_digest (clock 0) deployment
     (request_for ''acme'' (Some \<lparr>b_email = Some ''a@x.com'', b_password = Some ''secret1'',
                                  b_name = None\<rparr>)) =
     (Inr \<lparr>status = 409, json = ErrorJson ''User with this email already exists''\<rparr>,
      deployment) \<and>
   signup_POST make_digest (clock 0) deployment
     (request_for ''acme'' (Some \<lparr>b_email = Some ''A@x.com'', b_password = Some ''secret1'',
                                  b_name = None\<rparr>)) =
     (Inr \<lparr>status = 500, json = ErrorJson ''Internal server error''\<rparr>, deployment)"
proof -
  let ?lower = "\<lparr>b_email = Some ''a@x.com'', b_password = Some ''secret1'', b_name = None\<rparr>"
  let ?upper = "\<lparr>b_email = Some ''A@x.com'', b_password = Some ''secret1'', b_name = None\<rparr>"
  have shape: "emailRegex_test ''a@x.com''" "emailRegex_test ''A@x.com''"
    by code_simp+
  have len: "6 \<le> length ''secret1''"
    by simp
  have low: "trim (toLowerCase ''A@x.com'') = ''a@x.com''"
    by (simp add: trim_def toLowerCase_def toLowerCase_char_def upperCaseLetters_def
        lowerCaseLetters_def isWhiteSpace_def)
  have row: "alice \<in> set (users deployment)" "u_email alice = ''a@x.com''"
    "u_tenantId alice = t_id acme"
    by (simp_all add: deployment_def alice_def acme_def)
  have body_lower: "r_body (request_for ''acme'' (Some ?lower)) = Some ?lower"
    "b_email ?lower = Some ''a@x.com''" "b_password ?lower = Some ''secret1''"
    by (simp_all add: request_for_def)
  have body_upper: "r_body (request_for ''acme'' (Some ?upper)) = Some ?upper"
    "b_email ?upper = Some ''A@x.com''" "b_password ?upper = Some ''secret1''"
    by (simp_all add: request_for_def)
  have typed: "dbUser_findByEmail deployment (t_id acme) ''a@x.com'' = Inr (Some alice)"
    by (simp add: dbUser_findByEmail_def prisma_user_findUnique_email_tenantId_def
        deployment_def alice_def acme_def)
  have variant: "dbUser_findByEmail deployment (t_id acme) ''A@x.com'' = Inr None"
    by (simp add: dbUser_findByEmail_def prisma_user_findUnique_email_tenantId_def
        deployment_def alice_def acme_def)
  have conflict: "signup_POST make_digest (clock 0) deployment (request_for ''acme'' (Some ?lower)) =
      (Inr \<lparr>status = 409, json = ErrorJson ''User with this email already exists''\<rparr>,
       deployment)"
    unfolding signup_checked [OF tenant_acme [of "Some ?lower"] body_lower shape(1) len] typed
    by simp
  have refused: "dbUser_create (clock 0) deployment (t_id acme)
      \<lparr>i_email = ''a@x.com'', i_password = make_digest ''secret1'', i_name = None\<rparr> =
      (Inl UniqueConstraintViolation, deployment)"
    by (simp add: dbUser_create_def prisma_user_create_def deployment_def acme_def other_def
        alice_def clock_def)
  have failure: "signup_POST make_digest (clock 0) deployment (request_for ''acme'' (Some ?upper)) =
      (Inr \<lparr>status = 500, json = ErrorJson ''Internal server error''\<rparr>, deployment)"
    unfolding signup_checked [OF tenant_acme [of "Some ?upper"] body_upper shape(2) len] variant
    by (simp add: low refused internal_server_error_def)
  from low row conflict failure show ?thesis by blast
qed

text \<open>
  The same handler keeps the user row when the session insert that follows it fails:
  the answer is 500 although the user was created. Here the insert fails because the
  token is taken.
\<close>

lemma signup_user_kept_on_500:
  "fst (signup_POST make_digest (clock 0)
          (deployment\<lparr>sessions := [alice_session\<lparr>s_token := generateSessionToken (clock 0)\<rparr>]\<rparr>)
          (request_for ''acme'' (Some \<lparr>b_email = Some ''b@x.com'', b_password = Some ''secret1'',
                                       b_name = None\<rparr>))) =
     Inr \<lparr>status = 500, json = ErrorJson ''Internal server error''\<rparr> \<and>
   users (snd (signup_POST make_digest (clock 0)
          (deployment\<lparr>sessions := [alice_session\<lparr>s_token := generateSessionToken (clock 0)\<rparr>]\<rparr>)
          (request_for ''acme'' (Some \<lparr>b_email = Some ''b@x.com'', b_password = Some ''secret1'',
                                       b_name = None\<rparr>)))) =
     [alice, \<lparr>u_id = ''u-2'', u_email = ''b@x.com'', u_password = make_digest ''secret1'',
              u_name = None, u_tenantId = ''t-acme''\<rparr>]"
proof -
  let ?st = "deployment\<lparr>sessions := [alice_session\<lparr>s_token := generateSessionToken (clock 0)\<rparr>]\<rparr>"
  let ?b = "\<lparr>b_email = Some ''b@x.com'', b_password = Some ''secret1'', b_name = None\<rparr>"
  have shape: "emailRegex_test ''b@x.com''"
    by code_simp
  have len: "6 \<le> length ''secret1''"
    by simp
  have low: "trim (toLowerCase ''b@x.com'') = ''b@x.com''"
    by (simp add: trim_def toLowerCase_def toLowerCase_char_def upperCaseLetters_def
        lowerCaseLetters_def isWhiteSpace_def)
  have tenant: "getTenantFromRequest ?st (request_for ''acme'' (Some ?b)) = Inr (Some acme)"
    by (simp add: getTenantFromRequest_def request_for_def getTenantBySubdomain_def
        prisma_tenant_findUnique_def normal_acme deployment_def acme_def other_def)
  have body: "r_body (request_for ''acme'' (Some ?b)) = Some ?b"
    "b_email ?b = Some ''b@x.com''" "b_password ?b = Some ''secret1''"
    by (simp_all add: request_for_def)
  have new: "dbUser_findByEmail ?st (t_id acme) ''b@x.com'' = Inr None"
    by (simp add: dbUser_findByEmail_def prisma_user_findUnique_email_tenantId_def
        deployment_def alice_def acme_def)
  have uuid: "e_uuid (clock 0) = ''u-2''"
    by (simp add: clock_def)
  show ?thesis
    unfolding signup_checked [OF tenant body shape len] new
    using uuid
    by (simp add: low dbUser_create_def prisma_user_create_def createSession_def
        prisma_session_create_def Let_def deployment_def acme_def other_def alice_def
        internal_server_error_def)
qed

end
